theory Spec2Isabelle
  imports Complex_Main "HOL-Library.Word"
begin

section \<open>Rasters\<close>

text \<open>
  A raster is what a Pillow image and a two-dimensional numpy array have in common: a
  width, a height and the rows of pixels, top row first. Pillow allows images of zero
  width or height, so the sizes are fields of their own.
\<close>

record 'a imaging =
  xsize :: nat
  ysize :: nat
  rows :: "'a list list"

definition wf_imaging :: "'a imaging \<Rightarrow> bool" where
  "wf_imaging im \<longleftrightarrow>
     length (rows im) = ysize im \<and> list_all (\<lambda>r. length r = xsize im) (rows im)"

definition pixel :: "'a imaging \<Rightarrow> nat \<Rightarrow> nat \<Rightarrow> 'a" where
  "pixel im x y = rows im ! y ! x"

text \<open>
  A captured image holds colour pixels, three 8-bit channels each (an alpha channel, when
  there is one, plays no part in the conversion to luminance).
\<close>

type_synonym rgb = "8 word \<times> 8 word \<times> 8 word"

text \<open>
  A Python string is a sequence of Unicode code points; \<open>unicode\<close> reads an ASCII literal
  as one.
\<close>

type_synonym pystr = "nat list"

definition unicode :: "string \<Rightarrow> pystr" where
  "unicode s = map of_char s"

text \<open>The exceptions the pipeline and the OCR backends can raise, with their \<open>str\<close>.\<close>

datatype exn = ZeroDivisionError | ImportError pystr | Exception pystr

fun exn_str :: "exn \<Rightarrow> pystr" where
  "exn_str ZeroDivisionError = unicode ''float division by zero''"
| "exn_str (ImportError m) = m"
| "exn_str (Exception m) = m"

section \<open>The library calls of \<open>preprocess_image\<close>\<close>

subsection \<open>\<open>image.convert('L')\<close>\<close>

text \<open>
  Pillow's conversion of a colour pixel to luminance is the ITU-R 601-2 luma transform in
  16-bit fixed point: \<open>(R * 19595 + G * 38470 + B * 7471 + 0x8000) >> 16\<close>.
\<close>

definition rgb2l :: "rgb \<Rightarrow> nat" where
  "rgb2l p = (case p of (r, g, b) \<Rightarrow>
     (unat r * 19595 + unat g * 38470 + unat b * 7471 + 32768) div 65536)"

definition convert_L :: "rgb imaging \<Rightarrow> nat imaging" where
  "convert_L im = \<lparr>xsize = xsize im, ysize = ysize im, rows = map (map rgb2l) (rows im)\<rparr>"

subsection \<open>\<open>ImageEnhance.Contrast(gray).enhance(2.0)\<close>\<close>

text \<open>
  \<open>ImageStat.Stat(im).mean\<close> divides the sum of the pixel values by the number of
  pixels, and raises \<open>ZeroDivisionError\<close> on an image without pixels. The quotient is a
  rational here; rounding the float of the library gives the same integer on every image
  of fewer than \<open>2^40\<close> pixels.
\<close>

definition stat_sum :: "nat imaging \<Rightarrow> nat" where
  "stat_sum im = sum_list (concat (rows im))"

definition stat_count :: "nat imaging \<Rightarrow> nat" where
  "stat_count im = length (concat (rows im))"

definition stat_mean :: "nat imaging \<Rightarrow> exn + rat" where
  "stat_mean im =
     (if stat_count im = 0 then Inl ZeroDivisionError
      else Inr (of_nat (stat_sum im) / of_nat (stat_count im)))"

definition new_L :: "nat \<Rightarrow> nat \<Rightarrow> nat \<Rightarrow> nat imaging" where
  "new_L w h color = \<lparr>xsize = w, ysize = h, rows = replicate h (replicate w color)\<rparr>"

text \<open>
  The constructor of \<open>Contrast\<close> keeps the image and a second image of the same size,
  filled with \<open>int(mean + 0.5)\<close>.
\<close>

record contrast =
  c_image :: "nat imaging"
  degenerate :: "nat imaging"

definition Contrast :: "nat imaging \<Rightarrow> exn + contrast" where
  "Contrast im =
     (case stat_mean im of
        Inl e \<Rightarrow> Inl e
      | Inr mean \<Rightarrow>
          Inr \<lparr>c_image = im,
               degenerate = new_L (xsize im) (ysize im) (nat \<lfloor>mean + 1 / 2\<rfloor>)\<rparr>)"

text \<open>
  \<open>enhance(factor)\<close> is \<open>Image.blend(degenerate, image, factor)\<close>: per pixel
  \<open>in1 + alpha * (in2 - in1)\<close>, cast to a byte when \<open>alpha\<close> lies in \<open>[0, 1]\<close> and
  clipped to \<open>[0, 255]\<close> first when it does not.
\<close>

definition blend_px :: "rat \<Rightarrow> nat \<Rightarrow> nat \<Rightarrow> nat" where
  "blend_px alpha in1 in2 =
     (let temp = of_nat in1 + alpha * (of_nat in2 - of_nat in1)
      in if 0 \<le> alpha \<and> alpha \<le> 1 then nat \<lfloor>temp\<rfloor>
         else if temp \<le> 0 then 0
         else if 255 \<le> temp then 255
         else nat \<lfloor>temp\<rfloor>)"

definition blend :: "nat imaging \<Rightarrow> nat imaging \<Rightarrow> rat \<Rightarrow> nat imaging" where
  "blend im1 im2 alpha =
     \<lparr>xsize = xsize im1, ysize = ysize im1,
      rows = map2 (map2 (blend_px alpha)) (rows im1) (rows im2)\<rparr>"

definition enhance :: "contrast \<Rightarrow> rat \<Rightarrow> nat imaging" where
  "enhance e factor = blend (degenerate e) (c_image e) factor"

subsection \<open>\<open>enhanced.filter(ImageFilter.SHARPEN)\<close>\<close>

text \<open>
  A built-in filter of Pillow is a kernel with a divisor and an offset. \<open>SHARPEN\<close> is
  the 3x3 kernel below with divisor 16 and offset 0. The kernel is divided by the divisor
  and handed to \<open>ImagingFilter\<close>, which copies an image smaller than the kernel and
  otherwise runs \<open>ImagingFilter3x3\<close>: first and last row and first and last column are
  copied, every other pixel is the weighted sum of its 3x3 neighbourhood plus the offset
  plus one half, clipped to a byte.
\<close>

definition SHARPEN :: "rat \<times> rat \<times> rat list" where
  "SHARPEN = (16, 0, [-2, -2, -2,
                      -2, 32, -2,
                      -2, -2, -2])"

definition clip8 :: "rat \<Rightarrow> nat" where
  "clip8 v = (if v \<le> 0 then 0 else if 255 \<le> v then 255 else nat \<lfloor>v\<rfloor>)"

definition KERNEL1x3 :: "nat list \<Rightarrow> nat \<Rightarrow> rat list \<Rightarrow> rat" where
  "KERNEL1x3 in0 x kern =
     of_nat (in0 ! (x - 1)) * kern ! 0 + of_nat (in0 ! x) * kern ! 1
       + of_nat (in0 ! (x + 1)) * kern ! 2"

definition filter_px :: "rat list \<Rightarrow> rat \<Rightarrow> nat list \<Rightarrow> nat list \<Rightarrow> nat list \<Rightarrow> nat \<Rightarrow> nat" where
  "filter_px kern offset in_1 in0 in1 x =
     clip8 (offset + 1 / 2
            + KERNEL1x3 in1 x kern
            + KERNEL1x3 in0 x (drop 3 kern)
            + KERNEL1x3 in_1 x (drop 6 kern))"

definition filter_row :: "rat list \<Rightarrow> rat \<Rightarrow> nat \<Rightarrow> nat list \<Rightarrow> nat list \<Rightarrow> nat list \<Rightarrow> nat list" where
  "filter_row kern offset w in_1 in0 in1 =
     [in0 ! 0] @ map (filter_px kern offset in_1 in0 in1) [1..<w - 1] @ [in0 ! (w - 1)]"

definition ImagingFilter3x3 :: "nat imaging \<Rightarrow> rat list \<Rightarrow> rat \<Rightarrow> nat imaging" where
  "ImagingFilter3x3 im kern offset =
     \<lparr>xsize = xsize im, ysize = ysize im,
      rows = [rows im ! 0]
        @ map (\<lambda>y. filter_row kern offset (xsize im)
                      (rows im ! (y - 1)) (rows im ! y) (rows im ! (y + 1)))
            [1..<ysize im - 1]
        @ [rows im ! (ysize im - 1)]\<rparr>"

definition ImagingFilter :: "nat imaging \<Rightarrow> rat list \<Rightarrow> rat \<Rightarrow> nat imaging" where
  "ImagingFilter im kern offset =
     (if xsize im < 3 \<or> ysize im < 3 then im else ImagingFilter3x3 im kern offset)"

definition filter_im :: "rat \<times> rat \<times> rat list \<Rightarrow> nat imaging \<Rightarrow> nat imaging" where
  "filter_im f im = (case f of (divisor, offset, kern) \<Rightarrow>
     ImagingFilter im (map (\<lambda>k. k / divisor) kern) offset)"

subsection \<open>\<open>np.mean\<close> and the comparison\<close>

text \<open>
  \<open>np.mean\<close> of an array of bytes is the sum of the entries over their number, in
  double precision; the sum is exact and the rational quotient compares with a byte the
  way the double does (on every array of fewer than \<open>2^40\<close> entries).
\<close>

definition np_mean :: "nat imaging \<Rightarrow> rat" where
  "np_mean a = of_nat (sum_list (concat (rows a))) / of_nat (length (concat (rows a)))"

section \<open>\<open>preprocess_image\<close>\<close>

text \<open>
  The last stage, \<open>(img_array > threshold) * 255\<close> cast to bytes, and the pipeline. The
  exception of \<open>Contrast\<close> on an image without pixels leaves the function.
\<close>

definition binarize :: "nat imaging \<Rightarrow> nat imaging" where
  "binarize img_array =
     (let threshold = np_mean img_array
      in \<lparr>xsize = xsize img_array, ysize = ysize img_array,
          rows = map (map (\<lambda>v. if threshold < of_nat v then 255 else 0)) (rows img_array)\<rparr>)"

definition preprocess_image :: "rgb imaging \<Rightarrow> exn + nat imaging" where
  "preprocess_image img =
     (let gray = convert_L img
      in case Contrast gray of
           Inl e \<Rightarrow> Inl e
         | Inr enhancer \<Rightarrow>
             (let enhanced = enhance enhancer 2;
                  sharpened = filter_im SHARPEN enhanced
              in Inr (binarize sharpened)))"

section \<open>Rectangles\<close>

text \<open>
  A \<open>QRect\<close> built from two points keeps them as its corners, so a rectangle from a
  point to itself is one pixel wide and high. \<open>normalized\<close> swaps the corners of a
  direction in which the second lies before the first.
\<close>

type_synonym qpoint = "int \<times> int"

record qrect =
  rx1 :: int
  ry1 :: int
  rx2 :: int
  ry2 :: int

definition QRect :: "qpoint \<Rightarrow> qpoint \<Rightarrow> qrect" where
  "QRect topleft bottomright =
     \<lparr>rx1 = fst topleft, ry1 = snd topleft, rx2 = fst bottomright, ry2 = snd bottomright\<rparr>"

definition width :: "qrect \<Rightarrow> int" where
  "width r = rx2 r - rx1 r + 1"

definition height :: "qrect \<Rightarrow> int" where
  "height r = ry2 r - ry1 r + 1"

definition normalized :: "qrect \<Rightarrow> qrect" where
  "normalized r =
     \<lparr>rx1 = (if rx2 r < rx1 r - 1 then rx2 r else rx1 r),
      ry1 = (if ry2 r < ry1 r - 1 then ry2 r else ry1 r),
      rx2 = (if rx2 r < rx1 r - 1 then rx1 r else rx2 r),
      ry2 = (if ry2 r < ry1 r - 1 then ry1 r else ry2 r)\<rparr>"

section \<open>The main window\<close>

text \<open>
  The state of the window carries a log of the calls made so far, in order: the capture
  of a region, the hand-over of the captured image, the preprocessing, the attempts on the
  two OCR backends and the warning box.
\<close>

datatype call =
    Capture_region qrect
  | Process_capture "rgb imaging"
  | Preprocess_image "rgb imaging"
  | Image_to_string "nat imaging"
  | Easyocr_readtext "nat imaging"
  | Warning pystr pystr

fun is_backend_call :: "call \<Rightarrow> bool" where
  "is_backend_call (Image_to_string _) = True"
| "is_backend_call (Easyocr_readtext _) = True"
| "is_backend_call _ = False"

fun is_warning :: "call \<Rightarrow> bool" where
  "is_warning (Warning _ _) = True"
| "is_warning _ = False"

datatype label = Label_text pystr | Label_pixmap "rgb imaging"

text \<open>
  The fields of \<open>MainWindow\<close> that its methods read or write. \<open>extracted_text\<close> is
  \<open>None\<close> until the attribute is first assigned; \<open>ocr_combo\<close> is the current index of
  the engine selector.
\<close>

record main_window =
  visible :: bool
  captured_image :: "rgb imaging option"
  extracted_text :: "pystr option"
  image_label :: label
  text_label :: pystr
  snip_btn_enabled :: bool
  paste_btn_enabled :: bool
  extract_btn_enabled :: bool
  copy_btn_enabled :: bool
  ocr_combo :: nat
  calls :: "call list"

definition combo_items :: "string list" where
  "combo_items =
     [''Tesseract (Fast)'',
      ''EasyOCR (Accurate - Not Installed)'',
      ''Cloud API (Premium - Not Implemented)'']"

definition currentText :: "nat \<Rightarrow> string" where
  "currentText i = (if i < length combo_items then combo_items ! i else [])"

text \<open>\<open>__init__\<close> with \<open>init_ui\<close>: both action buttons start disabled.\<close>

definition init_window :: main_window where
  "init_window =
     \<lparr>visible = False,
      captured_image = None,
      extracted_text = None,
      image_label = Label_text (unicode ''Click 'New Snip' or press Ctrl+Shift+S to capture''),
      text_label = unicode ''Extracted text will appear here'',
      snip_btn_enabled = True,
      paste_btn_enabled = True,
      extract_btn_enabled = False,
      copy_btn_enabled = False,
      ocr_combo = 0,
      calls = []\<rparr>"

definition process_capture :: "rgb imaging \<Rightarrow> main_window \<Rightarrow> main_window" where
  "process_capture img s =
     s\<lparr>visible := True,
       captured_image := Some img,
       image_label := Label_pixmap img,
       extract_btn_enabled := True,
       text_label := unicode ''Image captured! Click 'Extract Text' to process.'',
       calls := calls s @ [Process_capture img]\<rparr>"

text \<open>The user picks another entry of the engine selector.\<close>

definition select_engine :: "nat \<Rightarrow> main_window \<Rightarrow> main_window" where
  "select_engine i s = s\<lparr>ocr_combo := i\<rparr>"

subsection \<open>Strings\<close>

text \<open>\<open>needle in hay\<close> on strings: some suffix of \<open>hay\<close> starts with \<open>needle\<close>.\<close>

fun py_in :: "'a list \<Rightarrow> 'a list \<Rightarrow> bool" where
  "py_in needle [] = (needle = [])"
| "py_in needle (c # cs) = (take (length needle) (c # cs) = needle \<or> py_in needle cs)"

text \<open>The code points that \<open>str.isspace\<close> accepts, and \<open>str.strip()\<close>.\<close>

definition py_isspace :: "nat \<Rightarrow> bool" where
  "py_isspace c \<longleftrightarrow>
     (9 \<le> c \<and> c \<le> 13) \<or> (28 \<le> c \<and> c \<le> 32) \<or> c = 133 \<or> c = 160 \<or> c = 5760
     \<or> (8192 \<le> c \<and> c \<le> 8202) \<or> c = 8232 \<or> c = 8233 \<or> c = 8239 \<or> c = 8287
     \<or> c = 12288"

definition py_strip :: "pystr \<Rightarrow> pystr" where
  "py_strip s = rev (dropWhile py_isspace (rev (dropWhile py_isspace s)))"

fun py_join :: "pystr \<Rightarrow> pystr list \<Rightarrow> pystr" where
  "py_join sep [] = []"
| "py_join sep [x] = x"
| "py_join sep (x # y # ys) = x @ sep @ py_join sep (y # ys)"

subsection \<open>\<open>extract_text\<close>\<close>

text \<open>
  The OCR backends are outside the program: \<open>image_to_string\<close> is
  \<open>pytesseract.image_to_string\<close> with its fixed configuration, \<open>easyocr_readtext\<close> is
  the import of \<open>easyocr\<close>, the construction of the reader and \<open>readtext\<close>, giving the
  recognised strings. Either returns or raises.
\<close>

record ocr_env =
  image_to_string :: "nat imaging \<Rightarrow> exn + pystr"
  easyocr_readtext :: "nat imaging \<Rightarrow> exn + pystr list"

text \<open>
  The choice of the engine inside the \<open>try\<close> block: the backend calls made, and the
  text or the exception that leaves the block.
\<close>

definition ocr_text :: "ocr_env \<Rightarrow> string \<Rightarrow> nat imaging \<Rightarrow> call list \<times> (exn + pystr)" where
  "ocr_text env engine processed_image =
     (if py_in ''Tesseract'' engine then
        ([Image_to_string processed_image], image_to_string env processed_image)
      else if py_in ''EasyOCR'' engine then
        ([Easyocr_readtext processed_image],
         case easyocr_readtext env processed_image of
           Inl (ImportError m) \<Rightarrow>
             Inr (unicode ''EasyOCR not installed. Please install with: pip install easyocr'')
         | Inl e \<Rightarrow> Inl e
         | Inr result \<Rightarrow> Inr (py_join [10] result))
      else ([], Inr (unicode ''Cloud API not implemented in this demo'')))"

text \<open>
  The \<open>except\<close> branch, and the method. \<open>QApplication.processEvents()\<close> leaves the
  fields of the window alone; no assignment of the \<open>try\<close> block precedes a call that can
  raise.
\<close>

definition ocr_failed :: "exn \<Rightarrow> main_window \<Rightarrow> main_window" where
  "ocr_failed e s =
     s\<lparr>text_label := unicode ''Error during OCR: '' @ exn_str e,
       calls := calls s @
         [Warning (unicode ''OCR Error'') (unicode ''Failed to extract text: '' @ exn_str e)]\<rparr>"

definition extract_text :: "ocr_env \<Rightarrow> main_window \<Rightarrow> main_window" where
  "extract_text env s =
     (case captured_image s of
        None \<Rightarrow> s
      | Some img \<Rightarrow>
          (let s1 = s\<lparr>text_label := unicode ''Processing... Please wait.''\<rparr>;
               s2 = s1\<lparr>calls := calls s1 @ [Preprocess_image img]\<rparr>
           in case preprocess_image img of
                Inl e \<Rightarrow> ocr_failed e s2
              | Inr processed_image \<Rightarrow>
                  (let engine = currentText (ocr_combo s2);
                       r = ocr_text env engine processed_image;
                       s3 = s2\<lparr>calls := calls s2 @ fst r\<rparr>
                   in case snd r of
                        Inl e \<Rightarrow> ocr_failed e s3
                      | Inr txt \<Rightarrow>
                          if py_strip txt \<noteq> [] then
                            s3\<lparr>text_label := txt,
                               extracted_text := Some txt,
                               copy_btn_enabled := True\<rparr>
                          else
                            s3\<lparr>text_label := unicode ''No text detected in image'',
                               copy_btn_enabled := False\<rparr>)))"

section \<open>The selection overlay\<close>

text \<open>
  The fields of \<open>SnippingWidget\<close>. Its parent is the main window, which created it.
\<close>

record snipping_widget =
  sel_begin :: qpoint
  sel_end :: qpoint
  is_selecting :: bool
  screenshot :: "rgb imaging option"
  rubber_band_shown :: bool
  shown :: bool
  closed :: bool

text \<open>\<open>__init__\<close>, and \<open>start_snip\<close> with the screen it grabbed.\<close>

definition init_widget :: snipping_widget where
  "init_widget =
     \<lparr>sel_begin = (0, 0), sel_end = (0, 0), is_selecting = False, screenshot = None,
      rubber_band_shown = False, shown = False, closed = False\<rparr>"

definition start_snip :: "rgb imaging \<Rightarrow> snipping_widget \<Rightarrow> snipping_widget" where
  "start_snip shot w = w\<lparr>screenshot := Some shot, shown := True\<rparr>"

definition mousePressEvent :: "qpoint \<Rightarrow> snipping_widget \<Rightarrow> snipping_widget" where
  "mousePressEvent pos w =
     w\<lparr>sel_begin := pos, sel_end := pos, is_selecting := True, rubber_band_shown := True\<rparr>"

definition mouseMoveEvent :: "qpoint \<Rightarrow> snipping_widget \<Rightarrow> snipping_widget" where
  "mouseMoveEvent pos w = (if is_selecting w then w\<lparr>sel_end := pos\<rparr> else w)"

text \<open>
  \<open>capture_region\<close> crops the screenshot, writes the crop as PNG and opens it with
  Pillow; \<open>to_pil\<close> stands for these toolkit calls, which give an image or raise.
\<close>

definition capture_region ::
  "(qrect \<Rightarrow> rgb imaging \<Rightarrow> exn + rgb imaging) \<Rightarrow> qrect \<Rightarrow> snipping_widget \<Rightarrow> main_window
     \<Rightarrow> exn + main_window" where
  "capture_region to_pil rect w p =
     (let p1 = p\<lparr>calls := calls p @ [Capture_region rect]\<rparr>
      in case screenshot w of
           None \<Rightarrow> Inr p1
         | Some shot \<Rightarrow>
             (case to_pil rect shot of
                Inl e \<Rightarrow> Inl e
              | Inr pil_image \<Rightarrow> Inr (process_capture pil_image p1)))"

definition mouseReleaseEvent ::
  "(qrect \<Rightarrow> rgb imaging \<Rightarrow> exn + rgb imaging) \<Rightarrow> snipping_widget \<times> main_window
     \<Rightarrow> exn + snipping_widget \<times> main_window" where
  "mouseReleaseEvent to_pil wp =
     (case wp of (w, p) \<Rightarrow>
        (let w1 = w\<lparr>is_selecting := False, rubber_band_shown := False\<rparr>;
             rect = normalized (QRect (sel_begin w1) (sel_end w1))
         in if width rect > 10 \<and> height rect > 10 then
              (case capture_region to_pil rect w1 p of
                 Inl e \<Rightarrow> Inl e
               | Inr p' \<Rightarrow> Inr (w1\<lparr>shown := False, closed := True\<rparr>, p'))
            else Inr (w1\<lparr>shown := False, closed := True\<rparr>, p)))"

section \<open>Derived descriptions of the stages\<close>

text \<open>
  The mean that \<open>Contrast\<close> rounds, in integer arithmetic; the enhancer it builds from a
  non-empty image; and the value \<open>SHARPEN\<close> gives an inner pixel, from the pixel and the
  sum of its eight neighbours. The lemmas below show that the library calls compute these.
\<close>

definition contrast_mean :: "nat imaging \<Rightarrow> nat" where
  "contrast_mean im = (2 * stat_sum im + stat_count im) div (2 * stat_count im)"

definition enhancer_of :: "nat imaging \<Rightarrow> contrast" where
  "enhancer_of gray =
     \<lparr>c_image = gray, degenerate = new_L (xsize gray) (ysize gray) (contrast_mean gray)\<rparr>"

definition neighbours8 :: "nat imaging \<Rightarrow> nat \<Rightarrow> nat \<Rightarrow> nat" where
  "neighbours8 im x y =
     pixel im (x - 1) (y - 1) + pixel im x (y - 1) + pixel im (x + 1) (y - 1)
     + pixel im (x - 1) y + pixel im (x + 1) y
     + pixel im (x - 1) (y + 1) + pixel im x (y + 1) + pixel im (x + 1) (y + 1)"

definition sharpen_value :: "nat \<Rightarrow> nat \<Rightarrow> nat" where
  "sharpen_value c n8 =
     (let N = 32 * int c - 2 * int n8 + 8
      in if N \<le> 0 then 0 else if 4080 \<le> N then 255 else nat (N div 16))"

text \<open>
  How an extraction fails, if it does. An exception of the preprocessing or of the
  selected backend reaches the handler of \<open>extract_text\<close>. The \<open>ImportError\<close> of EasyOCR
  does not: the inner handler replaces it by a notice, which then goes the way of a
  recognised text.
\<close>

datatype failure = Raised exn | Backend_unavailable

definition extraction_failure :: "ocr_env \<Rightarrow> main_window \<Rightarrow> failure option" where
  "extraction_failure env s =
     (case captured_image s of
        None \<Rightarrow> None
      | Some img \<Rightarrow>
          (case preprocess_image img of
             Inl e \<Rightarrow> Some (Raised e)
           | Inr processed_image \<Rightarrow>
               (let engine = currentText (ocr_combo s)
                in if py_in ''Tesseract'' engine then
                     (case image_to_string env processed_image of
                        Inl e \<Rightarrow> Some (Raised e)
                      | Inr txt \<Rightarrow> None)
                   else if py_in ''EasyOCR'' engine then
                     (case easyocr_readtext env processed_image of
                        Inl (ImportError m) \<Rightarrow> Some Backend_unavailable
                      | Inl e \<Rightarrow> Some (Raised e)
                      | Inr result \<Rightarrow> None)
                   else None)))"

definition cloud_message :: pystr where
  "cloud_message = unicode ''Cloud API not implemented in this demo''"

section \<open>The spec's formulas\<close>

text \<open>
  Two formulas as the specification words them, to compare the stages with: the
  cross-shaped sharpening kernel \<open>[[0,-1,0],[-1,5,-1],[0,-1,0]]\<close> at a pixel, clamped to
  a byte, and the contrast stretch \<open>clamp(mean + (input - mean) * 2.0, 0, 255)\<close>.
\<close>

definition spec_cross_sharpen :: "nat imaging \<Rightarrow> nat \<Rightarrow> nat \<Rightarrow> int" where
  "spec_cross_sharpen im x y =
     max 0 (min 255 (5 * int (pixel im x y)
        - int (pixel im x (y - 1)) - int (pixel im (x - 1) y)
        - int (pixel im (x + 1) y) - int (pixel im x (y + 1))))"

definition spec_contrast :: "rat \<Rightarrow> rat \<Rightarrow> rat" where
  "spec_contrast mean v = max 0 (min 255 (mean + (v - mean) * 2))"

section \<open>Example images\<close>

text \<open>A 3x3 grey cross, brighter than its four corners.\<close>

definition example_cross :: "rgb imaging" where
  "example_cross =
     \<lparr>xsize = 3, ysize = 3,
      rows = [[(100, 100, 100), (110, 110, 110), (100, 100, 100)],
              [(110, 110, 110), (110, 110, 110), (110, 110, 110)],
              [(100, 100, 100), (110, 110, 110), (100, 100, 100)]]\<rparr>"

text \<open>A single row and a pair of pixels whose mean luminance is not an integer.\<close>

definition example_row :: "rgb imaging" where
  "example_row = \<lparr>xsize = 5, ysize = 1,
     rows = [[(1, 1, 1), (1, 1, 1), (0, 0, 0), (0, 0, 0), (0, 0, 0)]]\<rparr>"

definition example_pair :: "rgb imaging" where
  "example_pair = \<lparr>xsize = 2, ysize = 1, rows = [[(0, 0, 0), (1, 1, 1)]]\<rparr>"

text \<open>A 2x2 image of one colour.\<close>

definition example_flat :: "rgb imaging" where
  "example_flat =
     \<lparr>xsize = 2, ysize = 2,
      rows = [[(7, 8, 9), (7, 8, 9)], [(7, 8, 9), (7, 8, 9)]]\<rparr>"

section \<open>Example runs\<close>

text \<open>
  Two worlds: one where Tesseract finds nothing and returns a line feed and a form feed,
  one where it raises. EasyOCR is not installed in either.
\<close>

definition env_blank :: ocr_env where
  "env_blank =
     \<lparr>image_to_string = (\<lambda>im. Inr [10, 12]),
      easyocr_readtext = (\<lambda>im. Inl (ImportError (unicode ''No module named 'easyocr'')))\<rparr>"

definition env_fail :: ocr_env where
  "env_fail =
     \<lparr>image_to_string = (\<lambda>im. Inl (Exception (unicode ''tesseract is not installed''))),
      easyocr_readtext = (\<lambda>im. Inl (ImportError (unicode ''No module named 'easyocr'')))\<rparr>"

text \<open>
  A run of the window: an image is captured; the text is extracted with the Cloud API
  entry selected; then with Tesseract, which finds nothing; then with Tesseract, which
  raises.
\<close>

definition state_captured :: main_window where
  "state_captured = process_capture example_cross init_window"

definition state_cloud :: main_window where
  "state_cloud = extract_text env_fail (select_engine 2 state_captured)"

definition state_blank :: main_window where
  "state_blank = extract_text env_blank (select_engine 0 state_cloud)"

definition state_failed :: main_window where
  "state_failed = extract_text env_fail state_blank"

text \<open>Another end of the run: after the Cloud API entry, the EasyOCR entry is tried.\<close>

definition state_unavailable :: main_window where
  "state_unavailable = extract_text env_fail (select_engine 1 state_cloud)"

section \<open>Properties of the stages\<close>

subsection \<open>Well-formed rasters\<close>

lemma length_concat_uniform:
  "list_all (\<lambda>r. length r = w) xss \<Longrightarrow> length (concat xss) = w * length xss"
  by (induction xss) simp_all

lemma wf_count:
  "wf_imaging im \<Longrightarrow> length (concat (rows im)) = xsize im * ysize im"
  using length_concat_uniform [of "xsize im" "rows im"] by (simp add: wf_imaging_def)

lemma wf_row_length:
  "wf_imaging im \<Longrightarrow> y < ysize im \<Longrightarrow> length (rows im ! y) = xsize im"
  by (simp add: wf_imaging_def list_all_length)

lemma wf_imagingI:
  "length (rows im) = ysize im \<Longrightarrow> (\<And>y. y < ysize im \<Longrightarrow> length (rows im ! y) = xsize im)
   \<Longrightarrow> wf_imaging im"
  by (simp add: wf_imaging_def list_all_length)

subsection \<open>Greyscale conversion\<close>

lemma convert_L_size [simp]:
  "xsize (convert_L im) = xsize im" "ysize (convert_L im) = ysize im"
  by (simp_all add: convert_L_def)

lemma wf_convert_L: "wf_imaging im \<Longrightarrow> wf_imaging (convert_L im)"
  by (simp add: wf_imaging_def convert_L_def list_all_length)

lemma pixel_convert_L:
  "wf_imaging im \<Longrightarrow> x < xsize im \<Longrightarrow> y < ysize im \<Longrightarrow>
   pixel (convert_L im) x y = rgb2l (pixel im x y)"
  by (simp add: pixel_def convert_L_def wf_imaging_def list_all_length)

lemma rgb2l_le: "rgb2l p \<le> 255"
proof -
  obtain r g b where p: "p = (r, g, b)" by (cases p)
  have "unat r \<le> 255" "unat g \<le> 255" "unat b \<le> 255"
    using unsigned_less [of r, where ?'a = nat] unsigned_less [of g, where ?'a = nat]
      unsigned_less [of b, where ?'a = nat] by simp_all
  then show ?thesis unfolding p rgb2l_def by simp
qed

subsection \<open>Contrast\<close>

lemma floor_mean_half:
  assumes "0 < n"
  shows "nat \<lfloor>(of_nat s :: rat) / of_nat n + 1 / 2\<rfloor> = (2 * s + n) div (2 * n)"
proof -
  have "(of_nat s :: rat) / of_nat n + 1 / 2 = of_int (int (2 * s + n)) / of_int (int (2 * n))"
    using assms by (simp add: field_simps)
  then have "\<lfloor>(of_nat s :: rat) / of_nat n + 1 / 2\<rfloor> = int (2 * s + n) div int (2 * n)"
    by (simp only: floor_divide_of_int_eq)
  then show ?thesis
    by (simp add: zdiv_int [symmetric] del: of_nat_mult of_nat_add)
qed

lemma Contrast_eq:
  "0 < stat_count im \<Longrightarrow>
   Contrast im = Inr \<lparr>c_image = im,
     degenerate = new_L (xsize im) (ysize im) (contrast_mean im)\<rparr>"
  by (simp add: Contrast_def stat_mean_def contrast_mean_def floor_mean_half)

lemma blend_px_2: "blend_px 2 m v = (if 2 * v \<le> m then 0 else if 255 + m \<le> 2 * v then 255 else 2 * v - m)"
proof -
  have t: "(of_nat m :: rat) + 2 * (of_nat v - of_nat m) = of_int (2 * int v - int m)"
    by simp
  show ?thesis
    unfolding blend_px_def Let_def t
    by (auto simp del: of_int_diff of_int_mult simp: nat_diff_distrib' le_nat_iff nat_le_iff)
qed


lemma map2_replicate:
  "length xs = n \<Longrightarrow> map2 f (replicate n a) xs = map (f a) xs"
  by (simp add: zip_replicate1)

lemma blend_degenerate_rows:
  assumes "wf_imaging im"
  shows "map2 (map2 f) (replicate (ysize im) (replicate (xsize im) m)) (rows im)
         = map (map (f m)) (rows im)"
proof -
  have "map2 (map2 f) (replicate (ysize im) (replicate (xsize im) m)) (rows im)
        = map (map2 f (replicate (xsize im) m)) (rows im)"
    using assms by (simp add: map2_replicate wf_imaging_def)
  also have "\<dots> = map (map (f m)) (rows im)"
    using assms by (auto simp: wf_imaging_def list_all_iff map2_replicate simp del: map_map)
  finally show ?thesis .
qed

lemma enhance_eq:
  "wf_imaging im \<Longrightarrow>
   enhance \<lparr>c_image = im, degenerate = new_L (xsize im) (ysize im) m\<rparr> 2 =
   \<lparr>xsize = xsize im, ysize = ysize im, rows = map (map (blend_px 2 m)) (rows im)\<rparr>"
  by (simp add: enhance_def blend_def new_L_def blend_degenerate_rows)

subsection \<open>Sharpening\<close>

lemma length_filter_row: "2 \<le> w \<Longrightarrow> length (filter_row k off w a b c) = w"
  by (simp add: filter_row_def)

lemma nth_filter_row:
  "x < w \<Longrightarrow> filter_row k off w a b c ! x =
     (if x = 0 \<or> x = w - 1 then b ! x else filter_px k off a b c x)"
  by (auto simp: filter_row_def nth_append nth_Cons' nth_map_upt)

lemma length_rows_3x3: "2 \<le> ysize im \<Longrightarrow> length (rows (ImagingFilter3x3 im k off)) = ysize im"
  by (simp add: ImagingFilter3x3_def)

lemma nth_rows_3x3:
  "y < ysize im \<Longrightarrow> rows (ImagingFilter3x3 im k off) ! y =
     (if y = 0 \<or> y = ysize im - 1 then rows im ! y
      else filter_row k off (xsize im) (rows im ! (y - 1)) (rows im ! y) (rows im ! (y + 1)))"
  by (auto simp: ImagingFilter3x3_def nth_append nth_Cons' nth_map_upt)

lemma size_ImagingFilter [simp]:
  "xsize (ImagingFilter im k off) = xsize im" "ysize (ImagingFilter im k off) = ysize im"
  by (simp_all add: ImagingFilter_def ImagingFilter3x3_def)

lemma wf_ImagingFilter:
  assumes "wf_imaging im"
  shows "wf_imaging (ImagingFilter im k off)"
proof (cases "xsize im < 3 \<or> ysize im < 3")
  case True
  then show ?thesis using assms by (simp add: ImagingFilter_def)
next
  case False
  then have big: "3 \<le> xsize im" "3 \<le> ysize im" by simp_all
  have "wf_imaging (ImagingFilter3x3 im k off)"
  proof (rule wf_imagingI)
    show "length (rows (ImagingFilter3x3 im k off)) = ysize (ImagingFilter3x3 im k off)"
      using big by (simp add: ImagingFilter3x3_def)
  next
    fix y assume "y < ysize (ImagingFilter3x3 im k off)"
    then have y: "y < ysize im" by (simp add: ImagingFilter3x3_def)
    show "length (rows (ImagingFilter3x3 im k off) ! y) = xsize (ImagingFilter3x3 im k off)"
      using y big assms
      by (simp add: nth_rows_3x3 length_filter_row wf_row_length) (simp add: ImagingFilter3x3_def wf_row_length)
  qed
  with False show ?thesis by (simp add: ImagingFilter_def)
qed

lemma pixel_ImagingFilter:
  assumes "x < xsize im" "y < ysize im"
  shows "pixel (ImagingFilter im k off) x y =
     (if xsize im < 3 \<or> ysize im < 3 \<or> x = 0 \<or> y = 0 \<or> x = xsize im - 1 \<or> y = ysize im - 1
      then pixel im x y
      else filter_px k off (rows im ! (y - 1)) (rows im ! y) (rows im ! (y + 1)) x)"
  using assms by (auto simp: ImagingFilter_def pixel_def nth_rows_3x3 nth_filter_row)


lemma clip8_sixteenths:
  "clip8 (of_int N / 16) = (if N \<le> 0 then 0 else if 4080 \<le> N then 255 else nat (N div 16))"
proof -
  have f: "\<lfloor>(of_int N :: rat) / 16\<rfloor> = N div 16"
    using floor_divide_of_int_eq [of N 16, where ?'a = rat] by simp
  have a: "(of_int N :: rat) / 16 \<le> 0 \<longleftrightarrow> N \<le> 0"
    by (simp add: divide_le_0_iff)
  have b: "255 \<le> (of_int N :: rat) / 16 \<longleftrightarrow> 4080 \<le> N"
  proof -
    have "255 \<le> (of_int N :: rat) / 16 \<longleftrightarrow> (of_int 4080 :: rat) \<le> of_int N"
      by (simp add: le_divide_eq)
    also have "\<dots> \<longleftrightarrow> 4080 \<le> N" by (simp only: of_int_le_iff)
    finally show ?thesis .
  qed
  show ?thesis unfolding clip8_def a b f by simp
qed

lemma filter_px_SHARPEN:
  "filter_px (map (\<lambda>k. k / 16) [-2, -2, -2, -2, 32, -2, -2, -2, -2]) 0
      (rows im ! (y - 1)) (rows im ! y) (rows im ! (y + 1)) x
   = sharpen_value (pixel im x y) (neighbours8 im x y)"
proof -
  have "0 + 1 / 2
        + KERNEL1x3 (rows im ! (y + 1)) x (map (\<lambda>k. k / 16) [-2, -2, -2, -2, 32, -2, -2, -2, -2])
        + KERNEL1x3 (rows im ! y) x (drop 3 (map (\<lambda>k. k / 16) [-2, -2, -2, -2, 32, -2, -2, -2, -2]))
        + KERNEL1x3 (rows im ! (y - 1)) x (drop 6 (map (\<lambda>k. k / 16) [-2, -2, -2, -2, 32, -2, -2, -2, -2]))
        = (of_int (32 * int (pixel im x y) - 2 * int (neighbours8 im x y) + 8) :: rat) / 16"
    by (simp add: KERNEL1x3_def pixel_def neighbours8_def field_simps)
  then show ?thesis
    unfolding filter_px_def sharpen_value_def Let_def by (simp only: clip8_sixteenths)
qed

lemma pixel_filter_SHARPEN:
  assumes "x < xsize im" "y < ysize im"
  shows "pixel (filter_im SHARPEN im) x y =
     (if xsize im < 3 \<or> ysize im < 3 \<or> x = 0 \<or> y = 0 \<or> x = xsize im - 1 \<or> y = ysize im - 1
      then pixel im x y
      else sharpen_value (pixel im x y) (neighbours8 im x y))"
proof -
  have "filter_im SHARPEN im
        = ImagingFilter im (map (\<lambda>k. k / 16) [-2, -2, -2, -2, 32, -2, -2, -2, -2]) 0"
    by (simp add: filter_im_def SHARPEN_def del: list.map)
  then show ?thesis
    using assms by (simp only: pixel_ImagingFilter filter_px_SHARPEN)
qed

lemma size_filter_im [simp]:
  "xsize (filter_im f im) = xsize im" "ysize (filter_im f im) = ysize im"
  by (simp_all add: filter_im_def split: prod.splits)

lemma wf_filter_im: "wf_imaging im \<Longrightarrow> wf_imaging (filter_im f im)"
  by (simp add: filter_im_def wf_ImagingFilter split: prod.splits)

subsection \<open>Thresholding\<close>

lemma size_binarize [simp]:
  "xsize (binarize a) = xsize a" "ysize (binarize a) = ysize a"
  by (simp_all add: binarize_def Let_def)

lemma wf_binarize: "wf_imaging a \<Longrightarrow> wf_imaging (binarize a)"
  by (simp add: wf_imaging_def binarize_def Let_def list_all_length)

lemma pixel_binarize:
  "wf_imaging a \<Longrightarrow> x < xsize a \<Longrightarrow> y < ysize a \<Longrightarrow>
   pixel (binarize a) x y = (if np_mean a < of_nat (pixel a x y) then 255 else 0)"
  by (simp add: pixel_def binarize_def Let_def wf_imaging_def list_all_length)

lemma mean_less_iff:
  assumes "0 < n"
  shows "(of_nat s :: rat) / of_nat n < of_nat v \<longleftrightarrow> s < v * n"
proof -
  have "(of_nat s :: rat) / of_nat n < of_nat v \<longleftrightarrow> (of_nat s :: rat) < of_nat (v * n)"
    using assms by (simp add: divide_less_eq)
  also have "\<dots> \<longleftrightarrow> s < v * n" by (simp only: of_nat_less_iff)
  finally show ?thesis .
qed


subsection \<open>Uniform rasters\<close>

lemma sum_list_all_eq:
  "list_all (\<lambda>v. v = c) xs \<Longrightarrow> sum_list xs = c * length xs"
  by (induction xs) simp_all

lemma list_all_concat:
  "list_all (list_all P) xss \<Longrightarrow> list_all P (concat xss)"
  by (induction xss) simp_all

lemma pixels_iff:
  "wf_imaging im \<Longrightarrow>
   list_all (list_all P) (rows im) \<longleftrightarrow> (\<forall>y<ysize im. \<forall>x<xsize im. P (pixel im x y))"
  by (auto simp: wf_imaging_def list_all_length pixel_def)

lemma round_mean_exact:
  assumes "0 < (n::nat)"
  shows "(2 * (g * n) + n) div (2 * n) = g"
proof -
  have "(2 * (g * n) + n) div (2 * n) = (n + g * (2 * n)) div (2 * n)"
    by (simp add: algebra_simps)
  also have "\<dots> = g + n div (2 * n)"
    using assms div_mult_self1 [of "2 * n" n g] by simp
  also have "\<dots> = g" using assms by simp
  finally show ?thesis .
qed

lemma contrast_mean_uniform:
  assumes "list_all (list_all (\<lambda>v. v = g)) (rows im)" "0 < stat_count im"
  shows "contrast_mean im = g"
proof -
  have "stat_sum im = g * stat_count im"
    using assms(1) by (simp add: stat_sum_def stat_count_def sum_list_all_eq list_all_concat)
  then show ?thesis
    using assms(2) by (simp only: contrast_mean_def round_mean_exact)
qed

lemma np_mean_uniform:
  assumes "list_all (list_all (\<lambda>v. v = g)) (rows a)" "0 < length (concat (rows a))"
  shows "np_mean a = of_nat g"
proof -
  have "sum_list (concat (rows a)) = g * length (concat (rows a))"
    using assms(1) by (simp add: sum_list_all_eq list_all_concat)
  then show ?thesis using assms(2) by (simp add: np_mean_def)
qed

lemma blend_px_2_same: "g \<le> 255 \<Longrightarrow> blend_px 2 g g = g"
  by (simp add: blend_px_2)

lemma sharpen_value_same: "g \<le> 255 \<Longrightarrow> sharpen_value g (8 * g) = g"
  by (simp add: sharpen_value_def Let_def)


subsection \<open>The pipeline\<close>

lemma stat_count_pos:
  "wf_imaging im \<Longrightarrow> 0 < xsize im \<Longrightarrow> 0 < ysize im \<Longrightarrow> 0 < stat_count im"
  by (simp add: stat_count_def wf_count)

lemma Contrast_gray:
  assumes "wf_imaging img" "0 < xsize img" "0 < ysize img"
  shows "Contrast (convert_L img) = Inr (enhancer_of (convert_L img))"
  using assms stat_count_pos [of "convert_L img"]
  by (simp add: Contrast_eq enhancer_of_def wf_convert_L)

lemma preprocess_image_eq:
  assumes "wf_imaging img" "0 < xsize img" "0 < ysize img"
  shows "preprocess_image img
         = Inr (binarize (filter_im SHARPEN (enhance (enhancer_of (convert_L img)) 2)))"
  using Contrast_gray [OF assms] by (simp add: preprocess_image_def)

lemma enhance_enhancer_of:
  "wf_imaging gray \<Longrightarrow>
   enhance (enhancer_of gray) 2 =
   \<lparr>xsize = xsize gray, ysize = ysize gray,
    rows = map (map (blend_px 2 (contrast_mean gray))) (rows gray)\<rparr>"
  by (simp add: enhancer_of_def enhance_eq)

lemma size_enhance [simp]:
  "wf_imaging gray \<Longrightarrow> xsize (enhance (enhancer_of gray) 2) = xsize gray"
  "wf_imaging gray \<Longrightarrow> ysize (enhance (enhancer_of gray) 2) = ysize gray"
  by (simp_all add: enhance_enhancer_of)

lemma wf_enhance: "wf_imaging gray \<Longrightarrow> wf_imaging (enhance (enhancer_of gray) 2)"
  by (simp add: enhance_enhancer_of) (simp add: wf_imaging_def list_all_length)

lemma pixel_enhance:
  "wf_imaging gray \<Longrightarrow> x < xsize gray \<Longrightarrow> y < ysize gray \<Longrightarrow>
   pixel (enhance (enhancer_of gray) 2) x y = blend_px 2 (contrast_mean gray) (pixel gray x y)"
  by (simp add: enhance_enhancer_of) (simp add: pixel_def wf_imaging_def list_all_length)

lemma binary_rows: "list_all (list_all (\<lambda>v. v = 0 \<or> v = 255)) (rows (binarize a))"
  by (auto simp: binarize_def Let_def list_all_iff)

text \<open>
  C1. On every image of positive width and height \<open>preprocess_image\<close> returns an
  image of the same width and height, and every pixel of it is 0 or 255.
\<close>

theorem preprocess_image_size_binary:
  assumes "wf_imaging img" "0 < xsize img" "0 < ysize img"
  shows "\<exists>out. preprocess_image img = Inr out \<and> wf_imaging out
           \<and> xsize out = xsize img \<and> ysize out = ysize img
           \<and> list_all (list_all (\<lambda>v. v = 0 \<or> v = 255)) (rows out)"
proof -
  let ?gray = "convert_L img"
  let ?sharpened = "filter_im SHARPEN (enhance (enhancer_of ?gray) 2)"
  have g: "wf_imaging ?gray" using assms(1) by (rule wf_convert_L)
  have "wf_imaging (binarize ?sharpened)"
    by (intro wf_binarize wf_filter_im wf_enhance g)
  moreover have "xsize (binarize ?sharpened) = xsize img" "ysize (binarize ?sharpened) = ysize img"
    using g by simp_all
  ultimately show ?thesis
    using preprocess_image_eq [OF assms] binary_rows by blast
qed


theorem preprocess_image_size_binary_witness:
  "wf_imaging example_cross \<and> 0 < xsize example_cross \<and> 0 < ysize example_cross
   \<and> (\<exists>out. preprocess_image example_cross = Inr out \<and> wf_imaging out
          \<and> xsize out = 3 \<and> ysize out = 3
          \<and> list_all (list_all (\<lambda>v. v = 0 \<or> v = 255)) (rows out))"
  using preprocess_image_size_binary [of example_cross]
  by (simp add: example_cross_def wf_imaging_def)

subsection \<open>The stages of the pipeline\<close>

lemma sum_list_concat_rows: "sum_list (concat xss) = sum_list (map sum_list xss)"
  by (induction xss) simp_all

lemma raster_total:
  assumes "wf_imaging im"
  shows "sum_list (concat (rows im)) = (\<Sum>j = 0..<ysize im. \<Sum>i = 0..<xsize im. pixel im i j)"
proof -
  have "sum_list (concat (rows im)) = sum_list (map sum_list (rows im))"
    by (rule sum_list_concat_rows)
  also have "\<dots> = (\<Sum>j = 0..<length (rows im). sum_list (rows im ! j))"
    by (rule trans [OF sum_list_sum_nth]) (auto intro!: sum.cong)
  also have "\<dots> = (\<Sum>j = 0..<ysize im. \<Sum>i = 0..<xsize im. pixel im i j)"
    using assms
    by (intro sum.cong) (simp_all add: wf_imaging_def list_all_length sum_list_sum_nth pixel_def)
  finally show ?thesis .
qed

lemma wf_sharpened:
  "wf_imaging img \<Longrightarrow>
   wf_imaging (filter_im SHARPEN (enhance (enhancer_of (convert_L img)) 2))"
  by (intro wf_filter_im wf_enhance wf_convert_L)

lemma size_sharpened:
  "wf_imaging img \<Longrightarrow> xsize (filter_im SHARPEN (enhance (enhancer_of (convert_L img)) 2)) = xsize img"
  "wf_imaging img \<Longrightarrow> ysize (filter_im SHARPEN (enhance (enhancer_of (convert_L img)) 2)) = ysize img"
  by (simp_all add: wf_convert_L)

text \<open>
  C2. The threshold of the last stage is the mean over all pixels of the sharpened image,
  and a pixel becomes 255 exactly when its value is strictly greater than that mean, 0
  otherwise; a pixel equal to the mean falls in the second case. The comparison is given
  twice, against the rational mean and cross-multiplied in natural numbers.
\<close>

theorem threshold_is_global_mean:
  assumes "wf_imaging img" "0 < xsize img" "0 < ysize img" "x < xsize img" "y < ysize img"
  shows "\<exists>enhancer out.
           Contrast (convert_L img) = Inr enhancer \<and> preprocess_image img = Inr out \<and>
           (let sharpened = filter_im SHARPEN (enhance enhancer 2);
                total = (\<Sum>j = 0..<ysize img. \<Sum>i = 0..<xsize img. pixel sharpened i j);
                count = xsize img * ysize img;
                v = pixel sharpened x y
            in out = binarize sharpened
               \<and> np_mean sharpened = of_nat total / of_nat count
               \<and> pixel out x y = (if np_mean sharpened < of_nat v then 255 else 0)
               \<and> pixel out x y = (if total < v * count then 255 else 0))"
proof -
  let ?sh = "filter_im SHARPEN (enhance (enhancer_of (convert_L img)) 2)"
  let ?total = "\<Sum>j = 0..<ysize img. \<Sum>i = 0..<xsize img. pixel ?sh i j"
  let ?count = "xsize img * ysize img"
  have wf: "wf_imaging ?sh" using assms(1) by (rule wf_sharpened)
  have sz: "xsize ?sh = xsize img" "ysize ?sh = ysize img"
    using assms(1) by (rule size_sharpened)+
  have cnt: "length (concat (rows ?sh)) = ?count"
    using wf_count [OF wf] by (simp only: sz)
  have tot: "sum_list (concat (rows ?sh)) = ?total"
    using raster_total [OF wf] by (simp only: sz)
  have mean: "np_mean ?sh = of_nat ?total / of_nat ?count"
    by (simp only: np_mean_def cnt tot)
  have "x < xsize ?sh" "y < ysize ?sh"
    using assms(4,5) by (simp_all only: sz)
  then have px: "pixel (binarize ?sh) x y = (if np_mean ?sh < of_nat (pixel ?sh x y) then 255 else 0)"
    by (rule pixel_binarize [OF wf])
  have pos: "0 < ?count" using assms(2,3) by simp
  have px': "pixel (binarize ?sh) x y = (if ?total < pixel ?sh x y * ?count then 255 else 0)"
    unfolding px mean by (simp only: mean_less_iff [OF pos])
  show ?thesis
    using Contrast_gray [OF assms(1-3)] preprocess_image_eq [OF assms(1-3)] mean px px'
    by (simp add: Let_def)
qed

theorem threshold_is_global_mean_witness:
  "wf_imaging example_cross \<and> 0 < xsize example_cross \<and> 0 < ysize example_cross
   \<and> 1 < xsize example_cross \<and> 1 < ysize example_cross
   \<and> (\<exists>enhancer out.
         Contrast (convert_L example_cross) = Inr enhancer
         \<and> preprocess_image example_cross = Inr out \<and>
         (let sharpened = filter_im SHARPEN (enhance enhancer 2);
              total = (\<Sum>j = 0..<ysize example_cross. \<Sum>i = 0..<xsize example_cross.
                         pixel sharpened i j);
              count = xsize example_cross * ysize example_cross;
              v = pixel sharpened 1 1
          in out = binarize sharpened
             \<and> np_mean sharpened = of_nat total / of_nat count
             \<and> pixel out 1 1 = (if np_mean sharpened < of_nat v then 255 else 0)
             \<and> pixel out 1 1 = (if total < v * count then 255 else 0)))"
proof -
  have w: "wf_imaging example_cross"
    by (simp add: example_cross_def wf_imaging_def)
  have s: "0 < xsize example_cross" "0 < ysize example_cross"
    "1 < xsize example_cross" "1 < ysize example_cross"
    by (simp_all add: example_cross_def)
  from w s threshold_is_global_mean [OF w s] show ?thesis by blast
qed


text \<open>
  C3, amended. The sharpening stage keeps the size of the image. It copies the first and
  last row and the first and last column (and the whole image when it is narrower or
  lower than 3), and gives every other pixel the value of Pillow's \<open>SHARPEN\<close> kernel:
  weight 32 on the pixel and -2 on each of its eight neighbours, divided by 16, rounded
  half up and clipped to \<open>[0, 255]\<close>.
\<close>

theorem sharpen_stage:
  assumes "wf_imaging img" "0 < xsize img" "0 < ysize img" "x < xsize img" "y < ysize img"
  shows "\<exists>enhancer.
           Contrast (convert_L img) = Inr enhancer \<and>
           (let enhanced = enhance enhancer 2;
                sharpened = filter_im SHARPEN enhanced
            in preprocess_image img = Inr (binarize sharpened)
               \<and> wf_imaging sharpened
               \<and> xsize sharpened = xsize img \<and> ysize sharpened = ysize img
               \<and> pixel sharpened x y =
                   (if xsize img < 3 \<or> ysize img < 3 \<or> x = 0 \<or> y = 0
                       \<or> x = xsize img - 1 \<or> y = ysize img - 1
                    then pixel enhanced x y
                    else sharpen_value (pixel enhanced x y) (neighbours8 enhanced x y)))"
proof -
  let ?en = "enhance (enhancer_of (convert_L img)) 2"
  have g: "wf_imaging (convert_L img)" using assms(1) by (rule wf_convert_L)
  have sz: "xsize ?en = xsize img" "ysize ?en = ysize img" using g by simp_all
  have "x < xsize ?en" "y < ysize ?en" using assms(4,5) by (simp_all only: sz)
  then have "pixel (filter_im SHARPEN ?en) x y =
     (if xsize ?en < 3 \<or> ysize ?en < 3 \<or> x = 0 \<or> y = 0 \<or> x = xsize ?en - 1 \<or> y = ysize ?en - 1
      then pixel ?en x y else sharpen_value (pixel ?en x y) (neighbours8 ?en x y))"
    by (rule pixel_filter_SHARPEN)
  then have px: "pixel (filter_im SHARPEN ?en) x y =
     (if xsize img < 3 \<or> ysize img < 3 \<or> x = 0 \<or> y = 0 \<or> x = xsize img - 1 \<or> y = ysize img - 1
      then pixel ?en x y else sharpen_value (pixel ?en x y) (neighbours8 ?en x y))"
    by (simp only: sz)
  show ?thesis
    using Contrast_gray [OF assms(1-3)] preprocess_image_eq [OF assms(1-3)]
      wf_sharpened [OF assms(1)] size_sharpened [OF assms(1)] px
    by (simp add: Let_def)
qed

theorem sharpen_stage_witness:
  "wf_imaging example_cross \<and> 0 < xsize example_cross \<and> 0 < ysize example_cross
   \<and> 1 < xsize example_cross \<and> 1 < ysize example_cross
   \<and> (\<exists>enhancer.
         Contrast (convert_L example_cross) = Inr enhancer \<and>
         (let enhanced = enhance enhancer 2;
              sharpened = filter_im SHARPEN enhanced
          in preprocess_image example_cross = Inr (binarize sharpened)
             \<and> wf_imaging sharpened
             \<and> xsize sharpened = xsize example_cross \<and> ysize sharpened = ysize example_cross
             \<and> pixel sharpened 1 1 =
                 (if xsize example_cross < 3 \<or> ysize example_cross < 3 \<or> (1::nat) = 0 \<or> (1::nat) = 0
                     \<or> 1 = xsize example_cross - 1 \<or> 1 = ysize example_cross - 1
                  then pixel enhanced 1 1
                  else sharpen_value (pixel enhanced 1 1) (neighbours8 enhanced 1 1))))"
proof -
  have w: "wf_imaging example_cross"
    by (simp add: example_cross_def wf_imaging_def)
  have s: "0 < xsize example_cross" "0 < ysize example_cross"
    "1 < xsize example_cross" "1 < ysize example_cross"
    by (simp_all add: example_cross_def)
  from w s sharpen_stage [OF w s] show ?thesis by blast
qed

lemma example_cross_gray:
  "convert_L example_cross =
     \<lparr>xsize = 3, ysize = 3, rows = [[100, 110, 100], [110, 110, 110], [100, 110, 100]]\<rparr>"
  by (simp add: convert_L_def example_cross_def rgb2l_def)

lemma example_cross_enhanced:
  "enhance (enhancer_of (convert_L example_cross)) 2 =
     \<lparr>xsize = 3, ysize = 3, rows = [[94, 114, 94], [114, 114, 114], [94, 114, 94]]\<rparr>"
proof -
  have w: "wf_imaging \<lparr>xsize = 3, ysize = 3,
      rows = [[100, 110, 100], [110, 110, 110], [100, 110, (100::nat)]]\<rparr>"
    by (simp add: wf_imaging_def)
  show ?thesis
    unfolding example_cross_gray
    by (simp add: enhance_enhancer_of [OF w] contrast_mean_def stat_sum_def stat_count_def
        blend_px_2)
qed

text \<open>
  C3 as stated fails: on the enhanced image of \<open>example_cross\<close> the pipeline gives the
  centre pixel 124, the cross-shaped kernel with centre weight 5 gives it 114.
\<close>

theorem sharpen_cross_kernel_counterexample:
  "Contrast (convert_L example_cross) = Inr (enhancer_of (convert_L example_cross))
   \<and> pixel (filter_im SHARPEN (enhance (enhancer_of (convert_L example_cross)) 2)) 1 1 = 124
   \<and> spec_cross_sharpen (enhance (enhancer_of (convert_L example_cross)) 2) 1 1 = 114"
proof -
  have c: "Contrast (convert_L example_cross) = Inr (enhancer_of (convert_L example_cross))"
    by (rule Contrast_gray) (simp_all add: example_cross_def wf_imaging_def)
  have p: "pixel (filter_im SHARPEN (enhance (enhancer_of (convert_L example_cross)) 2)) 1 1 = 124"
    unfolding example_cross_enhanced
    by (subst pixel_filter_SHARPEN) (simp_all add: sharpen_value_def neighbours8_def pixel_def)
  have s: "spec_cross_sharpen (enhance (enhancer_of (convert_L example_cross)) 2) 1 1 = 114"
    unfolding example_cross_enhanced by (simp add: spec_cross_sharpen_def pixel_def)
  from c p s show ?thesis by blast
qed


lemma blend_px_2_int:
  "int (blend_px 2 m v) = max 0 (min 255 (int m + (int v - int m) * 2))"
  by (simp add: blend_px_2)

lemma floor_mean_half_int:
  assumes "0 < n"
  shows "\<lfloor>(of_nat s :: rat) / of_nat n + 1 / 2\<rfloor> = int ((2 * s + n) div (2 * n))"
proof -
  have "0 \<le> (of_nat s :: rat) / of_nat n + 1 / 2" by simp
  then have "0 \<le> \<lfloor>(of_nat s :: rat) / of_nat n + 1 / 2\<rfloor>"
    by (simp only: zero_le_floor)
  then show ?thesis
    using floor_mean_half [OF assms, of s] by linarith
qed

text \<open>
  C4, amended. The contrast stage keeps the size of the image and maps every luminance
  \<open>v\<close> to \<open>clamp(m + (v - m) * 2, 0, 255)\<close>, where \<open>m\<close> is the mean luminance of the
  greyscale image rounded to the nearest integer, halves up.
\<close>

theorem contrast_stage:
  assumes "wf_imaging img" "0 < xsize img" "0 < ysize img" "x < xsize img" "y < ysize img"
  shows "\<exists>enhancer.
           Contrast (convert_L img) = Inr enhancer \<and>
           (let gray = convert_L img;
                enhanced = enhance enhancer 2;
                total = (\<Sum>j = 0..<ysize img. \<Sum>i = 0..<xsize img. pixel gray i j);
                count = xsize img * ysize img;
                m = (2 * total + count) div (2 * count);
                v = pixel gray x y
            in wf_imaging enhanced
               \<and> xsize enhanced = xsize img \<and> ysize enhanced = ysize img
               \<and> int m = \<lfloor>(of_nat total :: rat) / of_nat count + 1 / 2\<rfloor>
               \<and> int (pixel enhanced x y) = max 0 (min 255 (int m + (int v - int m) * 2)))"
proof -
  let ?gray = "convert_L img"
  let ?en = "enhance (enhancer_of ?gray) 2"
  let ?total = "\<Sum>j = 0..<ysize img. \<Sum>i = 0..<xsize img. pixel ?gray i j"
  let ?count = "xsize img * ysize img"
  have g: "wf_imaging ?gray" using assms(1) by (rule wf_convert_L)
  have pos: "0 < ?count" using assms(2,3) by simp
  have cnt: "stat_count ?gray = ?count"
    using wf_count [OF g] by (simp add: stat_count_def)
  have tot: "stat_sum ?gray = ?total"
    using raster_total [OF g] by (simp add: stat_sum_def)
  have m: "contrast_mean ?gray = (2 * ?total + ?count) div (2 * ?count)"
    by (simp only: contrast_mean_def cnt tot)
  have fl: "int ((2 * ?total + ?count) div (2 * ?count))
            = \<lfloor>(of_nat ?total :: rat) / of_nat ?count + 1 / 2\<rfloor>"
    by (simp only: floor_mean_half_int [OF pos])
  have "pixel ?en x y = blend_px 2 (contrast_mean ?gray) (pixel ?gray x y)"
    using g assms(4,5) by (simp add: pixel_enhance)
  then have px: "int (pixel ?en x y)
      = max 0 (min 255 (int ((2 * ?total + ?count) div (2 * ?count))
          + (int (pixel ?gray x y) - int ((2 * ?total + ?count) div (2 * ?count))) * 2))"
    by (simp only: blend_px_2_int m)
  show ?thesis
    using Contrast_gray [OF assms(1-3)] wf_enhance [OF g] size_enhance [OF g] fl px
    by (simp add: Let_def)
qed

theorem contrast_stage_witness:
  "wf_imaging example_cross \<and> 0 < xsize example_cross \<and> 0 < ysize example_cross
   \<and> 1 < xsize example_cross \<and> 1 < ysize example_cross
   \<and> (\<exists>enhancer.
         Contrast (convert_L example_cross) = Inr enhancer \<and>
         (let gray = convert_L example_cross;
              enhanced = enhance enhancer 2;
              total = (\<Sum>j = 0..<ysize example_cross. \<Sum>i = 0..<xsize example_cross.
                         pixel gray i j);
              count = xsize example_cross * ysize example_cross;
              m = (2 * total + count) div (2 * count);
              v = pixel gray 1 1
          in wf_imaging enhanced
             \<and> xsize enhanced = xsize example_cross \<and> ysize enhanced = ysize example_cross
             \<and> int m = \<lfloor>(of_nat total :: rat) / of_nat count + 1 / 2\<rfloor>
             \<and> int (pixel enhanced 1 1) = max 0 (min 255 (int m + (int v - int m) * 2))))"
proof -
  have w: "wf_imaging example_cross"
    by (simp add: example_cross_def wf_imaging_def)
  have s: "0 < xsize example_cross" "0 < ysize example_cross"
    "1 < xsize example_cross" "1 < ysize example_cross"
    by (simp_all add: example_cross_def)
  from w s contrast_stage [OF w s] show ?thesis by blast
qed


lemma example_row_gray:
  "convert_L example_row = \<lparr>xsize = 5, ysize = 1, rows = [[1, 1, 0, 0, 0]]\<rparr>"
  by (simp add: convert_L_def example_row_def rgb2l_def)

lemma example_pair_gray:
  "convert_L example_pair = \<lparr>xsize = 2, ysize = 1, rows = [[0, 1]]\<rparr>"
  by (simp add: convert_L_def example_pair_def rgb2l_def)

lemma example_row_enhanced:
  "enhance (enhancer_of (convert_L example_row)) 2
   = \<lparr>xsize = 5, ysize = 1, rows = [[2, 2, 0, 0, 0]]\<rparr>"
proof -
  have w: "wf_imaging \<lparr>xsize = 5, ysize = 1, rows = [[1, 1, 0, 0, (0::nat)]]\<rparr>"
    by (simp add: wf_imaging_def)
  show ?thesis
    unfolding example_row_gray
    by (subst enhance_enhancer_of [OF w])
       (simp add: contrast_mean_def stat_sum_def stat_count_def blend_px_2)
qed

lemma example_pair_enhanced:
  "enhance (enhancer_of (convert_L example_pair)) 2
   = \<lparr>xsize = 2, ysize = 1, rows = [[0, 1]]\<rparr>"
proof -
  have w: "wf_imaging \<lparr>xsize = 2, ysize = 1, rows = [[0, (1::nat)]]\<rparr>"
    by (simp add: wf_imaging_def)
  show ?thesis
    unfolding example_pair_gray
    by (subst enhance_enhancer_of [OF w])
       (simp add: contrast_mean_def stat_sum_def stat_count_def blend_px_2)
qed

text \<open>
  C4 as stated, with the exact mean, fails. On \<open>example_row\<close> the mean is 2/5 and the
  luminance 1 becomes 2, where the formula gives 8/5 (truncated: 1). On \<open>example_pair\<close>
  the mean is 1/2 and the luminance 1 stays 1, where the formula gives 3/2 (rounded: 2).
\<close>

theorem contrast_exact_mean_counterexample:
  "Contrast (convert_L example_row) = Inr (enhancer_of (convert_L example_row))
   \<and> stat_mean (convert_L example_row) = Inr (2 / 5)
   \<and> pixel (convert_L example_row) 0 0 = 1
   \<and> pixel (enhance (enhancer_of (convert_L example_row)) 2) 0 0 = 2
   \<and> spec_contrast (2 / 5) 1 = 8 / 5
   \<and> Contrast (convert_L example_pair) = Inr (enhancer_of (convert_L example_pair))
   \<and> stat_mean (convert_L example_pair) = Inr (1 / 2)
   \<and> pixel (convert_L example_pair) 1 0 = 1
   \<and> pixel (enhance (enhancer_of (convert_L example_pair)) 2) 1 0 = 1
   \<and> spec_contrast (1 / 2) 1 = 3 / 2"
proof -
  have c1: "Contrast (convert_L example_row) = Inr (enhancer_of (convert_L example_row))"
    by (rule Contrast_gray) (simp_all add: example_row_def wf_imaging_def)
  have c2: "Contrast (convert_L example_pair) = Inr (enhancer_of (convert_L example_pair))"
    by (rule Contrast_gray) (simp_all add: example_pair_def wf_imaging_def)
  have m1: "stat_mean (convert_L example_row) = Inr (2 / 5)"
    unfolding example_row_gray by (simp add: stat_mean_def stat_count_def stat_sum_def)
  have m2: "stat_mean (convert_L example_pair) = Inr (1 / 2)"
    unfolding example_pair_gray by (simp add: stat_mean_def stat_count_def stat_sum_def)
  have g1: "pixel (convert_L example_row) 0 0 = 1"
    unfolding example_row_gray by (simp add: pixel_def)
  have g2: "pixel (convert_L example_pair) 1 0 = 1"
    unfolding example_pair_gray by (simp add: pixel_def)
  have e1: "pixel (enhance (enhancer_of (convert_L example_row)) 2) 0 0 = 2"
    unfolding example_row_enhanced by (simp add: pixel_def)
  have e2: "pixel (enhance (enhancer_of (convert_L example_pair)) 2) 1 0 = 1"
    unfolding example_pair_enhanced by (simp add: pixel_def)
  have s1: "spec_contrast (2 / 5) 1 = 8 / 5"
    by (simp add: spec_contrast_def)
  have s2: "spec_contrast (1 / 2) 1 = 3 / 2"
    by (simp add: spec_contrast_def)
  from c1 c2 m1 m2 g1 g2 e1 e2 s1 s2 show ?thesis by simp
qed

lemma uniform_gray:
  "list_all (list_all (\<lambda>p. p = c)) (rows img) \<Longrightarrow>
   list_all (list_all (\<lambda>v. v = rgb2l c)) (rows (convert_L img))"
  by (simp add: convert_L_def list_all_iff)

lemma uniform_enhanced:
  assumes "wf_imaging gray" "0 < xsize gray" "0 < ysize gray" "g \<le> 255"
    "list_all (list_all (\<lambda>v. v = g)) (rows gray)"
  shows "list_all (list_all (\<lambda>v. v = g)) (rows (enhance (enhancer_of gray) 2))"
proof -
  have "contrast_mean gray = g"
    using assms(5) stat_count_pos [OF assms(1-3)] by (rule contrast_mean_uniform)
  then show ?thesis
    using assms(5) blend_px_2_same [OF assms(4)]
    by (auto simp: enhance_enhancer_of [OF assms(1)] list_all_iff)
qed

lemma uniform_sharpened:
  assumes "wf_imaging im" "list_all (list_all (\<lambda>v. v = g)) (rows im)" "g \<le> 255"
  shows "list_all (list_all (\<lambda>v. v = g)) (rows (filter_im SHARPEN im))"
proof -
  have px: "pixel im i j = g" if "i < xsize im" "j < ysize im" for i j
    using assms(1,2) that by (simp add: pixels_iff)
  have "pixel (filter_im SHARPEN im) x y = g" if xy: "x < xsize im" "y < ysize im" for x y
  proof (cases "xsize im < 3 \<or> ysize im < 3 \<or> x = 0 \<or> y = 0 \<or> x = xsize im - 1 \<or> y = ysize im - 1")
    case True
    then show ?thesis using xy px by (simp add: pixel_filter_SHARPEN)
  next
    case False
    then have "x - 1 < xsize im" "x + 1 < xsize im" "y - 1 < ysize im" "y + 1 < ysize im"
      using xy by auto
    then have "neighbours8 im x y = 8 * g"
      using xy unfolding neighbours8_def by (simp only: px)
    then show ?thesis
      using False xy px assms(3) by (simp add: pixel_filter_SHARPEN sharpen_value_same)
  qed
  then show ?thesis
    using wf_filter_im [OF assms(1), of SHARPEN] by (simp add: pixels_iff)
qed

lemma uniform_binarized:
  assumes "wf_imaging a" "0 < xsize a" "0 < ysize a" "list_all (list_all (\<lambda>v. v = g)) (rows a)"
  shows "list_all (list_all (\<lambda>v. v = 0)) (rows (binarize a))"
proof -
  have "0 < length (concat (rows a))"
    using assms(1-3) by (simp add: wf_count)
  with assms(4) have "np_mean a = of_nat g" by (rule np_mean_uniform)
  then show ?thesis
    using assms(4) by (simp add: binarize_def Let_def list_all_iff)
qed

text \<open>
  C5. On an image whose pixels are all equal, every stage yields an image whose pixels are
  all equal, and the result is all 0 or all 255; it is in fact always all 0, since no
  pixel is strictly greater than the mean.
\<close>

theorem uniform_image_stays_uniform:
  assumes "wf_imaging img" "0 < xsize img" "0 < ysize img"
    "list_all (list_all (\<lambda>p. p = c)) (rows img)"
  shows "\<exists>enhancer out.
           Contrast (convert_L img) = Inr enhancer \<and> preprocess_image img = Inr out
           \<and> list_all (list_all (\<lambda>v. v = rgb2l c)) (rows (convert_L img))
           \<and> list_all (list_all (\<lambda>v. v = rgb2l c)) (rows (enhance enhancer 2))
           \<and> list_all (list_all (\<lambda>v. v = rgb2l c)) (rows (filter_im SHARPEN (enhance enhancer 2)))
           \<and> wf_imaging out \<and> xsize out = xsize img \<and> ysize out = ysize img
           \<and> list_all (list_all (\<lambda>v. v = 0)) (rows out)
           \<and> (list_all (list_all (\<lambda>v. v = 0)) (rows out)
                \<or> list_all (list_all (\<lambda>v. v = 255)) (rows out))"
proof -
  let ?gray = "convert_L img"
  let ?en = "enhance (enhancer_of ?gray) 2"
  let ?sh = "filter_im SHARPEN ?en"
  have g: "wf_imaging ?gray" using assms(1) by (rule wf_convert_L)
  have u1: "list_all (list_all (\<lambda>v. v = rgb2l c)) (rows ?gray)"
    using assms(4) by (rule uniform_gray)
  have u2: "list_all (list_all (\<lambda>v. v = rgb2l c)) (rows ?en)"
    using g _ _ rgb2l_le u1 by (rule uniform_enhanced) (simp_all add: assms(2,3))
  have u3: "list_all (list_all (\<lambda>v. v = rgb2l c)) (rows ?sh)"
    using wf_enhance [OF g] u2 rgb2l_le by (rule uniform_sharpened)
  have sz: "xsize ?sh = xsize img" "ysize ?sh = ysize img"
    using assms(1) by (rule size_sharpened)+
  have u4: "list_all (list_all (\<lambda>v. v = 0)) (rows (binarize ?sh))"
    using wf_sharpened [OF assms(1)] _ _ u3 by (rule uniform_binarized) (simp_all only: sz assms(2,3))
  have w: "wf_imaging (binarize ?sh)"
    using wf_sharpened [OF assms(1)] by (rule wf_binarize)
  show ?thesis
    using Contrast_gray [OF assms(1-3)] preprocess_image_eq [OF assms(1-3)] u1 u2 u3 u4 w sz
    by simp
qed

theorem uniform_image_stays_uniform_witness:
  "wf_imaging example_flat \<and> 0 < xsize example_flat \<and> 0 < ysize example_flat
   \<and> list_all (list_all (\<lambda>p. p = (7, 8, 9))) (rows example_flat)
   \<and> (\<exists>enhancer out.
         Contrast (convert_L example_flat) = Inr enhancer
         \<and> preprocess_image example_flat = Inr out
         \<and> list_all (list_all (\<lambda>v. v = rgb2l (7, 8, 9))) (rows (convert_L example_flat))
         \<and> list_all (list_all (\<lambda>v. v = rgb2l (7, 8, 9))) (rows (enhance enhancer 2))
         \<and> list_all (list_all (\<lambda>v. v = rgb2l (7, 8, 9)))
               (rows (filter_im SHARPEN (enhance enhancer 2)))
         \<and> wf_imaging out \<and> xsize out = xsize example_flat \<and> ysize out = ysize example_flat
         \<and> list_all (list_all (\<lambda>v. v = 0)) (rows out)
         \<and> (list_all (list_all (\<lambda>v. v = 0)) (rows out)
              \<or> list_all (list_all (\<lambda>v. v = 255)) (rows out)))"
proof -
  have w: "wf_imaging example_flat"
    by (simp add: example_flat_def wf_imaging_def)
  have s: "0 < xsize example_flat" "0 < ysize example_flat"
    by (simp_all add: example_flat_def)
  have u: "list_all (list_all (\<lambda>p. p = (7, 8, 9))) (rows example_flat)"
    by (simp add: example_flat_def)
  from w s u uniform_image_stays_uniform [OF w s u] show ?thesis by blast
qed

section \<open>Properties of the window and the overlay\<close>

lemma currentText_2: "currentText 2 = ''Cloud API (Premium - Not Implemented)''"
  by (simp add: currentText_def combo_items_def)

lemma ocr_text_cloud:
  "ocr_text env (currentText 2) processed
   = ([], Inr (unicode ''Cloud API not implemented in this demo''))"
  by (simp add: ocr_text_def currentText_2)

lemma strip_cloud: "py_strip (unicode ''Cloud API not implemented in this demo'') \<noteq> []"
  by (simp add: py_strip_def unicode_def py_isspace_def)


text \<open>
  C9. Without a captured image \<open>extract_text\<close> returns at once: the whole state of the
  window (the displayed text, the stored text, the stored image, every button, the log of
  calls) is as it was.
\<close>

theorem extract_text_without_image:
  "captured_image s = None \<Longrightarrow> extract_text env s = s"
  by (simp add: extract_text_def)

theorem extract_text_without_image_witness:
  "captured_image init_window = None \<and> extract_text env_fail init_window = init_window"
  using extract_text_without_image [of init_window env_fail]
  by (simp add: init_window_def)

text \<open>
  C6. Releasing the mouse on a selection whose normalized rectangle is at most 10 pixels
  wide or at most 10 pixels high only ends the selection and hides and closes the overlay.
  The main window is returned as it was, its log of calls included: \<open>capture_region\<close> is
  not called, and nothing is preprocessed or handed to an OCR backend.
\<close>

theorem small_selection_discarded:
  assumes "width (normalized (QRect (sel_begin w) (sel_end w))) \<le> 10
           \<or> height (normalized (QRect (sel_begin w) (sel_end w))) \<le> 10"
  shows "mouseReleaseEvent to_pil (w, p)
         = Inr (w\<lparr>is_selecting := False, rubber_band_shown := False,
                   shown := False, closed := True\<rparr>, p)"
  using assms by (auto simp: mouseReleaseEvent_def Let_def)

lemma strip_whitespace:
  assumes "list_all py_isspace txt"
  shows "py_strip txt = []"
proof -
  have "dropWhile py_isspace txt = []"
    using assms by (simp add: list_all_iff)
  then show ?thesis
    unfolding py_strip_def by (simp only: rev.simps dropWhile.simps)
qed

lemma ocr_text_calls_cloud:
  "currentText i = ''Cloud API (Premium - Not Implemented)'' \<Longrightarrow>
   ocr_text env (currentText i) processed = ([], Inr cloud_message)"
  by (simp add: ocr_text_def cloud_message_def)

lemma strip_cloud_message: "py_strip cloud_message \<noteq> []"
  by (simp add: py_strip_def unicode_def py_isspace_def cloud_message_def)

lemma backend_calls_ocr_failed [simp]:
  "filter is_backend_call (calls (ocr_failed e s)) = filter is_backend_call (calls s)"
  by (simp add: ocr_failed_def)

text \<open>
  C7. With the Cloud API entry selected, \<open>extract_text\<close> calls no OCR backend (the log
  has no other kind of outside call but the warning box, so there is no network call
  either); and when there is a captured image that the preprocessing accepts, the text
  shown and stored is the fixed message and the only call logged is the preprocessing.
\<close>

theorem cloud_api_is_stub:
  assumes "currentText (ocr_combo s) = ''Cloud API (Premium - Not Implemented)''"
  shows "filter is_backend_call (calls (extract_text env s)) = filter is_backend_call (calls s)
         \<and> (\<forall>img processed.
               captured_image s = Some img \<longrightarrow> preprocess_image img = Inr processed \<longrightarrow>
               text_label (extract_text env s) = unicode ''Cloud API not implemented in this demo''
               \<and> extracted_text (extract_text env s)
                   = Some (unicode ''Cloud API not implemented in this demo'')
               \<and> copy_btn_enabled (extract_text env s)
               \<and> calls (extract_text env s) = calls s @ [Preprocess_image img])"
proof -
  have o: "ocr_text env (currentText (ocr_combo s)) processed = ([], Inr cloud_message)"
    for processed
    using assms by (rule ocr_text_calls_cloud)
  show ?thesis
    using strip_cloud_message
    by (auto simp: extract_text_def Let_def o cloud_message_def split: option.splits sum.splits)
qed

text \<open>
  C10. When the OCR returns a text that is empty or all whitespace, \<open>extract_text\<close>
  shows "No text detected in image" and disables the copy button, and leaves the stored
  text and the stored image as they were. After a successful extraction this takes the
  copy button from enabled to disabled while the old text stays, as the instance below
  shows.
\<close>

theorem no_text_detected:
  assumes "captured_image s = Some img" "preprocess_image img = Inr processed"
    "snd (ocr_text env (currentText (ocr_combo s)) processed) = Inr txt"
    "list_all py_isspace txt"
  shows "text_label (extract_text env s) = unicode ''No text detected in image''
         \<and> copy_btn_enabled (extract_text env s) = False
         \<and> extracted_text (extract_text env s) = extracted_text s
         \<and> captured_image (extract_text env s) = captured_image s"
  using assms strip_whitespace [OF assms(4)]
  by (simp add: extract_text_def Let_def)

text \<open>
  The two ways to fail, read off the \<open>try\<close> block: an exception leaves the preprocessing
  or the engine's branch, or the EasyOCR entry is selected and its import fails.
\<close>

lemma extraction_failure_Raised_iff:
  "extraction_failure env s = Some (Raised e) \<longleftrightarrow>
     (\<exists>img. captured_image s = Some img \<and>
        (preprocess_image img = Inl e
         \<or> (\<exists>processed. preprocess_image img = Inr processed
               \<and> snd (ocr_text env (currentText (ocr_combo s)) processed) = Inl e)))"
  by (auto simp: extraction_failure_def ocr_text_def Let_def
      split: option.splits sum.splits exn.splits if_splits)

lemma extraction_failure_unavailable_iff:
  "extraction_failure env s = Some Backend_unavailable \<longleftrightarrow>
     (\<exists>img processed m. captured_image s = Some img \<and> preprocess_image img = Inr processed
        \<and> \<not> py_in ''Tesseract'' (currentText (ocr_combo s))
        \<and> py_in ''EasyOCR'' (currentText (ocr_combo s))
        \<and> easyocr_readtext env processed = Inl (ImportError m))"
  by (auto simp: extraction_failure_def Let_def
      split: option.splits sum.splits exn.splits if_splits)

lemma strip_easyocr_notice:
  "py_strip (unicode ''EasyOCR not installed. Please install with: pip install easyocr'') \<noteq> []"
  by (simp add: py_strip_def unicode_def py_isspace_def)

text \<open>
  C8, amended. A failing extraction returns with the stored image and the extract button
  as they were. When the preprocessing or the backend raises, \<open>extract_text\<close> catches the
  exception: the stored text and the state of the copy button stay as they were before
  (so the copy button is disabled afterwards exactly when it was disabled before), the
  error text is shown and the warning box opened. When EasyOCR cannot be imported, the
  notice of it is handled as a recognised text: it is shown, it replaces the stored text,
  the copy button is enabled and no warning box is opened.
\<close>

theorem failed_extraction_keeps_state:
  assumes "extraction_failure env s = Some f"
  shows "captured_image (extract_text env s) = captured_image s
         \<and> extract_btn_enabled (extract_text env s) = extract_btn_enabled s
         \<and> (case f of
               Raised e \<Rightarrow>
                 extracted_text (extract_text env s) = extracted_text s
                 \<and> copy_btn_enabled (extract_text env s) = copy_btn_enabled s
                 \<and> text_label (extract_text env s) = unicode ''Error during OCR: '' @ exn_str e
                 \<and> last (calls (extract_text env s))
                     = Warning (unicode ''OCR Error'')
                         (unicode ''Failed to extract text: '' @ exn_str e)
             | Backend_unavailable \<Rightarrow>
                 text_label (extract_text env s)
                   = unicode ''EasyOCR not installed. Please install with: pip install easyocr''
                 \<and> extracted_text (extract_text env s)
                     = Some (unicode
                         ''EasyOCR not installed. Please install with: pip install easyocr'')
                 \<and> copy_btn_enabled (extract_text env s) = True
                 \<and> filter is_warning (calls (extract_text env s))
                     = filter is_warning (calls s))"
proof -
  from assms obtain img where img: "captured_image s = Some img"
    by (auto simp: extraction_failure_def split: option.splits)
  show ?thesis
  proof (cases "preprocess_image img")
    case (Inl e)
    then show ?thesis
      using assms img by (auto simp: extraction_failure_def extract_text_def Let_def ocr_failed_def)
  next
    case (Inr processed)
    show ?thesis
    proof (cases "py_in ''Tesseract'' (currentText (ocr_combo s))")
      case True
      then show ?thesis
        using assms img Inr
        by (auto simp: extraction_failure_def extract_text_def Let_def ocr_failed_def
            ocr_text_def split: sum.splits)
    next
      case False
      then show ?thesis
        using assms img Inr strip_easyocr_notice
        by (auto simp: extraction_failure_def extract_text_def Let_def ocr_failed_def
            ocr_text_def split: sum.splits exn.splits if_splits)
    qed
  qed
qed


lemma example_cross_sharpened:
  "filter_im SHARPEN (enhance (enhancer_of (convert_L example_cross)) 2) =
     \<lparr>xsize = 3, ysize = 3, rows = [[94, 114, 94], [114, 124, 114], [94, 114, 94]]\<rparr>"
proof -
  have u: "[Suc 0..<2] = [Suc 0]"
    by (simp add: upt_conv_Cons)
  have f: "\<lfloor>249 / 2 :: rat\<rfloor> = 124"
    by (simp add: floor_eq_iff)
  show ?thesis
    unfolding example_cross_enhanced
    by (simp add: filter_im_def SHARPEN_def ImagingFilter_def ImagingFilter3x3_def
        filter_row_def filter_px_def KERNEL1x3_def clip8_def u f)
qed

lemma preprocess_example_cross:
  "preprocess_image example_cross =
     Inr \<lparr>xsize = 3, ysize = 3, rows = [[0, 255, 0], [255, 255, 255], [0, 255, 0]]\<rparr>"
proof -
  have "preprocess_image example_cross
        = Inr (binarize (filter_im SHARPEN (enhance (enhancer_of (convert_L example_cross)) 2)))"
    by (rule preprocess_image_eq) (simp_all add: example_cross_def wf_imaging_def)
  then show ?thesis
    unfolding example_cross_sharpened by (simp add: binarize_def np_mean_def)
qed


lemma state_captured_fields:
  "captured_image state_captured = Some example_cross"
  "extracted_text state_captured = None"
  "copy_btn_enabled state_captured = False"
  "calls state_captured = [Process_capture example_cross]"
  by (simp_all add: state_captured_def process_capture_def init_window_def)

lemma state_cloud_fields:
  "captured_image state_cloud = Some example_cross"
  "extracted_text state_cloud = Some cloud_message"
  "copy_btn_enabled state_cloud = True"
  "ocr_combo state_cloud = 2"
  using strip_cloud_message
  by (simp_all add: state_cloud_def extract_text_def select_engine_def state_captured_fields
      preprocess_example_cross ocr_text_cloud Let_def cloud_message_def)

lemma currentText_0: "currentText 0 = ''Tesseract (Fast)''"
  by (simp add: currentText_def combo_items_def)

lemma ocr_text_tesseract:
  "ocr_text env (currentText 0) processed = ([Image_to_string processed], image_to_string env processed)"
  by (simp add: ocr_text_def currentText_0)

lemma state_blank_fields:
  "captured_image state_blank = Some example_cross"
  "extracted_text state_blank = Some cloud_message"
  "copy_btn_enabled state_blank = False"
  "ocr_combo state_blank = 0"
  by (simp_all add: state_blank_def extract_text_def select_engine_def state_cloud_fields
      preprocess_example_cross ocr_text_tesseract Let_def env_blank_def py_strip_def
      py_isspace_def)

lemma currentText_1: "currentText (Suc 0) = ''EasyOCR (Accurate - Not Installed)''"
  by (simp add: currentText_def combo_items_def)

lemma ocr_text_easyocr:
  "ocr_text env (currentText (Suc 0)) processed =
     ([Easyocr_readtext processed],
      case easyocr_readtext env processed of
        Inl (ImportError m) \<Rightarrow>
          Inr (unicode ''EasyOCR not installed. Please install with: pip install easyocr'')
      | Inl e \<Rightarrow> Inl e
      | Inr result \<Rightarrow> Inr (py_join [10] result))"
  by (simp add: ocr_text_def currentText_1)

lemma state_unavailable_fields:
  "extracted_text state_unavailable
     = Some (unicode ''EasyOCR not installed. Please install with: pip install easyocr'')"
  "copy_btn_enabled state_unavailable = True"
  "calls state_unavailable
     = calls state_cloud
       @ [Preprocess_image example_cross,
          Easyocr_readtext
            \<lparr>xsize = 3, ysize = 3, rows = [[0, 255, 0], [255, 255, 255], [0, 255, 0]]\<rparr>]"
  using strip_easyocr_notice
  by (simp_all add: state_unavailable_def extract_text_def select_engine_def state_cloud_fields
      preprocess_example_cross ocr_text_easyocr Let_def env_fail_def)

lemma easyocr_notice_differs:
  "unicode ''EasyOCR not installed. Please install with: pip install easyocr''
   \<noteq> unicode ''Cloud API not implemented in this demo''"
  by (simp add: unicode_def)

text \<open>
  C8 as stated fails in states the program reaches, in two ways. After an extraction that
  stored a text, one that found no text has disabled the copy button; a failing
  extraction then ends with the copy button disabled although a prior text exists. And
  after an extraction that stored a text, an extraction with EasyOCR, which is not
  installed, replaces the stored text by its notice.
\<close>

theorem failed_extraction_counterexample:
  "extraction_failure env_fail state_blank
     = Some (Raised (Exception (unicode ''tesseract is not installed'')))
   \<and> state_failed = extract_text env_fail state_blank
   \<and> extracted_text state_blank = Some (unicode ''Cloud API not implemented in this demo'')
   \<and> extracted_text state_failed = Some (unicode ''Cloud API not implemented in this demo'')
   \<and> copy_btn_enabled state_failed = False
   \<and> extraction_failure env_fail (select_engine 1 state_cloud) = Some Backend_unavailable
   \<and> state_unavailable = extract_text env_fail (select_engine 1 state_cloud)
   \<and> extracted_text (select_engine 1 state_cloud)
       = Some (unicode ''Cloud API not implemented in this demo'')
   \<and> extracted_text state_unavailable
       = Some (unicode ''EasyOCR not installed. Please install with: pip install easyocr'')
   \<and> extracted_text state_unavailable \<noteq> extracted_text (select_engine 1 state_cloud)"
proof -
  have e: "extraction_failure env_fail state_blank
           = Some (Raised (Exception (unicode ''tesseract is not installed'')))"
    by (simp add: extraction_failure_def state_blank_fields preprocess_example_cross
        currentText_0 env_fail_def)
  have t: "extracted_text state_blank = Some (unicode ''Cloud API not implemented in this demo'')"
    by (simp add: state_blank_fields cloud_message_def)
  have f: "extracted_text state_failed = Some (unicode ''Cloud API not implemented in this demo'')"
    "copy_btn_enabled state_failed = False"
    by (simp_all add: state_failed_def extract_text_def state_blank_fields
        preprocess_example_cross ocr_text_tesseract Let_def env_fail_def ocr_failed_def
        cloud_message_def)
  have u: "extraction_failure env_fail (select_engine 1 state_cloud) = Some Backend_unavailable"
    by (simp add: extraction_failure_def select_engine_def state_cloud_fields
        preprocess_example_cross currentText_1 env_fail_def)
  have p: "extracted_text (select_engine 1 state_cloud)
           = Some (unicode ''Cloud API not implemented in this demo'')"
    by (simp add: select_engine_def state_cloud_fields cloud_message_def)
  have d: "extracted_text state_unavailable \<noteq> extracted_text (select_engine 1 state_cloud)"
    unfolding p state_unavailable_fields using easyocr_notice_differs by simp
  from e t f u p d state_unavailable_fields(1) show ?thesis
    by (simp add: state_failed_def state_unavailable_def)
qed

theorem small_selection_discarded_witness:
  "(width (normalized (QRect
       (sel_begin (mousePressEvent (5, 5) (start_snip example_cross init_widget)))
       (sel_end (mousePressEvent (5, 5) (start_snip example_cross init_widget))))) \<le> 10
    \<or> height (normalized (QRect
       (sel_begin (mousePressEvent (5, 5) (start_snip example_cross init_widget)))
       (sel_end (mousePressEvent (5, 5) (start_snip example_cross init_widget))))) \<le> 10)
   \<and> mouseReleaseEvent (\<lambda>rect shot. Inr shot)
         (mousePressEvent (5, 5) (start_snip example_cross init_widget), init_window)
       = Inr ((mousePressEvent (5, 5) (start_snip example_cross init_widget))
                \<lparr>is_selecting := False, rubber_band_shown := False,
                 shown := False, closed := True\<rparr>, init_window)"
proof -
  let ?w = "mousePressEvent (5, 5) (start_snip example_cross init_widget)"
  have h: "width (normalized (QRect (sel_begin ?w) (sel_end ?w))) \<le> 10
           \<or> height (normalized (QRect (sel_begin ?w) (sel_end ?w))) \<le> 10"
    by (simp add: mousePressEvent_def QRect_def normalized_def width_def)
  from h small_selection_discarded [OF h] show ?thesis by blast
qed

theorem cloud_api_is_stub_witness:
  "currentText (ocr_combo (select_engine 2 state_captured))
     = ''Cloud API (Premium - Not Implemented)''
   \<and> captured_image (select_engine 2 state_captured) = Some example_cross
   \<and> text_label (extract_text env_fail (select_engine 2 state_captured))
       = unicode ''Cloud API not implemented in this demo''
   \<and> extracted_text (extract_text env_fail (select_engine 2 state_captured))
       = Some (unicode ''Cloud API not implemented in this demo'')
   \<and> calls (extract_text env_fail (select_engine 2 state_captured))
       = [Process_capture example_cross, Preprocess_image example_cross]"
proof -
  let ?s = "select_engine 2 state_captured"
  have h: "currentText (ocr_combo ?s) = ''Cloud API (Premium - Not Implemented)''"
    by (simp add: select_engine_def currentText_2)
  have c: "captured_image ?s = Some example_cross" "calls ?s = [Process_capture example_cross]"
    by (simp_all add: select_engine_def state_captured_fields)
  from cloud_api_is_stub [OF h, of env_fail] c(1) preprocess_example_cross
  have "text_label (extract_text env_fail ?s) = unicode ''Cloud API not implemented in this demo''
        \<and> extracted_text (extract_text env_fail ?s)
            = Some (unicode ''Cloud API not implemented in this demo'')
        \<and> copy_btn_enabled (extract_text env_fail ?s)
        \<and> calls (extract_text env_fail ?s) = calls ?s @ [Preprocess_image example_cross]"
    by blast
  with h c show ?thesis by simp
qed

theorem no_text_detected_witness:
  "captured_image (select_engine 0 state_cloud) = Some example_cross
   \<and> extracted_text (select_engine 0 state_cloud)
       = Some (unicode ''Cloud API not implemented in this demo'')
   \<and> copy_btn_enabled (select_engine 0 state_cloud) = True
   \<and> list_all py_isspace [10, 12]
   \<and> text_label (extract_text env_blank (select_engine 0 state_cloud))
       = unicode ''No text detected in image''
   \<and> copy_btn_enabled (extract_text env_blank (select_engine 0 state_cloud)) = False
   \<and> extracted_text (extract_text env_blank (select_engine 0 state_cloud))
       = Some (unicode ''Cloud API not implemented in this demo'')"
proof -
  let ?s = "select_engine 0 state_cloud"
  let ?p = "\<lparr>xsize = 3, ysize = 3, rows = [[0, 255, 0], [255, 255, 255], [0, 255, (0::nat)]]\<rparr>"
  have c: "captured_image ?s = Some example_cross"
    by (simp add: select_engine_def state_cloud_fields)
  have t: "extracted_text ?s = Some (unicode ''Cloud API not implemented in this demo'')"
    "copy_btn_enabled ?s = True"
    by (simp_all add: select_engine_def state_cloud_fields cloud_message_def)
  have o: "snd (ocr_text env_blank (currentText (ocr_combo ?s)) ?p) = Inr [10, 12]"
    by (simp add: select_engine_def ocr_text_tesseract env_blank_def)
  have w: "list_all py_isspace [10, 12]"
    by (simp add: py_isspace_def)
  from no_text_detected [OF c preprocess_example_cross o w] c t w
  show ?thesis by simp
qed

theorem failed_extraction_keeps_state_witness:
  "extraction_failure env_fail (select_engine 0 state_cloud)
     = Some (Raised (Exception (unicode ''tesseract is not installed'')))
   \<and> captured_image (extract_text env_fail (select_engine 0 state_cloud)) = Some example_cross
   \<and> extracted_text (extract_text env_fail (select_engine 0 state_cloud))
       = Some (unicode ''Cloud API not implemented in this demo'')
   \<and> copy_btn_enabled (extract_text env_fail (select_engine 0 state_cloud)) = True
   \<and> text_label (extract_text env_fail (select_engine 0 state_cloud))
       = unicode ''Error during OCR: '' @ unicode ''tesseract is not installed''
   \<and> extraction_failure env_fail (select_engine 1 state_cloud) = Some Backend_unavailable
   \<and> captured_image (extract_text env_fail (select_engine 1 state_cloud)) = Some example_cross
   \<and> extracted_text (extract_text env_fail (select_engine 1 state_cloud))
       = Some (unicode ''EasyOCR not installed. Please install with: pip install easyocr'')
   \<and> copy_btn_enabled (extract_text env_fail (select_engine 1 state_cloud)) = True
   \<and> filter is_warning (calls (extract_text env_fail (select_engine 1 state_cloud))) = []"
proof -
  let ?s = "select_engine 0 state_cloud"
  let ?u = "select_engine 1 state_cloud"
  have e: "extraction_failure env_fail ?s
           = Some (Raised (Exception (unicode ''tesseract is not installed'')))"
    by (simp add: extraction_failure_def select_engine_def state_cloud_fields
        preprocess_example_cross currentText_0 env_fail_def)
  have t: "captured_image ?s = Some example_cross"
    "extracted_text ?s = Some (unicode ''Cloud API not implemented in this demo'')"
    "copy_btn_enabled ?s = True"
    by (simp_all add: select_engine_def state_cloud_fields cloud_message_def)
  have u: "extraction_failure env_fail ?u = Some Backend_unavailable"
    by (simp add: extraction_failure_def select_engine_def state_cloud_fields
        preprocess_example_cross currentText_1 env_fail_def)
  have c: "captured_image ?u = Some example_cross" "filter is_warning (calls ?u) = []"
    using strip_cloud_message
    by (simp_all add: select_engine_def state_cloud_def extract_text_def state_captured_fields
        preprocess_example_cross ocr_text_cloud Let_def cloud_message_def)
  from failed_extraction_keeps_state [OF e] failed_extraction_keeps_state [OF u] e t u c
  show ?thesis by simp
qed

end
